theory Spec2Isabelle
  imports Complex_Main
begin

section \<open>The logind client: \<open>systemctl_mqtt/_dbus/login_manager.py\<close>\<close>

subsection \<open>Exceptions, log calls and D-Bus messages\<close>

text \<open>
  A D-Bus body item, as far as the messages of this module need them:
  \<open>s\<close> (string), \<open>t\<close> (uint64, given as a Python int) and \<open>b\<close> (boolean).
\<close>

datatype dbus_value = DBusString string | DBusUInt64 int | DBusBoolean bool

text \<open>
  The exceptions that cross this module. \<open>DBusErrorResponse name data\<close> is
  \<open>jeepney.wrappers.DBusErrorResponse\<close> with its two attributes; \<open>OtherError\<close> stands
  for every exception that is not a \<open>DBusErrorResponse\<close> (a closed socket, a timeout,
  a message that cannot be serialised): the \<open>except\<close> clauses below do not catch it.
\<close>

datatype exn =
    AssertionError string
  | DBusErrorResponse string "dbus_value list"
  | OtherError string

text \<open>The numeric levels of the \<open>logging\<close> module.\<close>

definition DEBUG :: nat where "DEBUG = 10"
definition INFO :: nat where "INFO = 20"
definition WARNING :: nat where "WARNING = 30"
definition ERROR :: nat where "ERROR = 40"

text \<open>
  An argument of a log call. The module logs lazily (\<open>_LOGGER.info(fmt, *args)\<close>), so
  a record is a level, a format string and its arguments. \<open>Strftime f t\<close> is the string
  \<open>t.strftime(f)\<close>, which is computed by the library and left uninterpreted.
\<close>

datatype log_arg = Str string | UInt nat | Exc exn | Strftime string int

text \<open>The method call message that \<open>jeepney.new_method_call\<close> builds.\<close>

record message =
  destination :: string
  object_path :: string
  interface :: string
  member :: string
  signature :: string
  body :: "dbus_value list"

text \<open>
  What a function of the module does besides returning: the calls it makes on
  \<open>_LOGGER\<close> and the method calls it sends over the bus, in program order.
\<close>

datatype event = Log nat string "log_arg list" | Send message

record remote_obj =
  ro_object_path :: string
  ro_bus_name :: string
  ro_interface :: string

definition new_method_call :: "remote_obj \<Rightarrow> string \<Rightarrow> string \<Rightarrow> dbus_value list \<Rightarrow> message" where
  "new_method_call obj method sig bdy =
     \<lparr>destination = ro_bus_name obj, object_path = ro_object_path obj,
      interface = ro_interface obj, member = method, signature = sig, body = bdy\<rparr>"

definition LOGIN_MANAGER_OBJECT_PATH :: string where
  "LOGIN_MANAGER_OBJECT_PATH = ''/org/freedesktop/login1''"

definition LOGIN_MANAGER_INTERFACE :: string where
  "LOGIN_MANAGER_INTERFACE = ''org.freedesktop.login1.Manager''"

definition LoginManager :: remote_obj where
  "LoginManager =
     \<lparr>ro_object_path = LOGIN_MANAGER_OBJECT_PATH, ro_bus_name = ''org.freedesktop.login1'',
      ro_interface = LOGIN_MANAGER_INTERFACE\<rparr>"

definition ListInhibitors :: message where
  "ListInhibitors = new_method_call LoginManager ''ListInhibitors'' [] []"

definition LockSessions :: message where
  "LockSessions = new_method_call LoginManager ''LockSessions'' [] []"

definition CanPowerOff :: message where
  "CanPowerOff = new_method_call LoginManager ''CanPowerOff'' [] []"

definition Suspend :: "bool \<Rightarrow> message" where
  "Suspend interactive = new_method_call LoginManager ''Suspend'' ''b'' [DBusBoolean interactive]"

definition Inhibit :: "string \<Rightarrow> string \<Rightarrow> string \<Rightarrow> string \<Rightarrow> message" where
  "Inhibit what who why mode =
     new_method_call LoginManager ''Inhibit'' ''ssss''
       [DBusString what, DBusString who, DBusString why, DBusString mode]"

subsection \<open>The environment\<close>

text \<open>
  One entry of the reply of \<open>ListInhibitors\<close>, whose D-Bus signature is \<open>a(ssssuu)\<close>.
\<close>

record inhibitor =
  what :: string
  who :: string
  why :: string
  mode :: string
  uid :: nat
  pid :: nat

text \<open>
  The blocking proxy of \<open>get_login_manager_proxy\<close>: a call sends the message, waits for
  the reply and unwraps it, which returns the reply's body or raises. The replies are
  the environment's choice, so each is a function of the message sent.
\<close>

record proxy =
  reply_ScheduleShutdown :: "message \<Rightarrow> exn + unit"
  reply_ListInhibitors :: "message \<Rightarrow> exn + inhibitor list"
  reply_Suspend :: "message \<Rightarrow> exn + unit"
  reply_LockSessions :: "message \<Rightarrow> exn + unit"

text \<open>
  A naive \<open>datetime\<close> is the integer number of microseconds since
  \<open>0001-01-01 00:00:00\<close> on the local time line, and a \<open>timedelta\<close> an integer number
  of microseconds. The type holds the years 1 to 9999: \<open>datetime.max\<close> is the last
  microsecond of the year 9999, which is day 3652059. \<open>datetime + timedelta\<close> raises
  \<open>OverflowError\<close> when the sum leaves this range.
\<close>

definition DATETIME_MAX :: int where
  "DATETIME_MAX = 3652059 * 86400 * 1000000 - 1"

definition datetime_add :: "int \<Rightarrow> int \<Rightarrow> exn + int" where
  "datetime_add t delta =
     (if 0 \<le> t + delta \<and> t + delta \<le> DATETIME_MAX then Inr (t + delta)
      else Inl (OtherError ''OverflowError''))"

text \<open>
  Everything else the module reads from outside: the clock (\<open>datetime.datetime.now()\<close>),
  the logger's effective level, the library's floating point, and the outcome of opening
  the system bus. A finite Python float is the real number it denotes. \<open>timestamp t\<close>
  is \<open>t.timestamp()\<close>, the seconds since the Unix epoch in the host's time zone, or the
  name of the exception that the conversion raises (\<open>ValueError\<close>, \<open>OverflowError\<close> or
  \<open>OSError\<close>, near the limits of the range); \<open>float_mul x y\<close> is the float \<open>x * y\<close>, the
  product as the hardware rounds it. Both are the library's and left uninterpreted.
\<close>

record world =
  now :: int
  effective_level :: nat
  timestamp :: "int \<Rightarrow> string + real"
  float_mul :: "real \<Rightarrow> real \<Rightarrow> real"
  open_dbus_connection :: "exn + proxy"

text \<open>Python's \<open>int(x)\<close> on a finite float: the integer part, truncated toward zero.\<close>

definition py_int :: "real \<Rightarrow> int" where
  "py_int x = (if x < 0 then \<lceil>x\<rceil> else \<lfloor>x\<rfloor>)"

text \<open>
  \<open>LoginManager.ScheduleShutdown(action, time)\<close>, with the body
  \<open>(action, int(time.timestamp() * 1e6))\<close>. Building the message raises what
  \<open>time.timestamp()\<close> raises.
\<close>

definition ScheduleShutdown :: "world \<Rightarrow> string \<Rightarrow> int \<Rightarrow> exn + message" where
  "ScheduleShutdown w action time =
     (case timestamp w time of
        Inl e \<Rightarrow> Inl (OtherError e)
      | Inr s \<Rightarrow>
          Inr (new_method_call LoginManager ''ScheduleShutdown'' ''st''
                 [DBusString action, DBusUInt64 (py_int (float_mul w s 1000000))]))"

definition get_login_manager_proxy :: "world \<Rightarrow> exn + proxy" where
  "get_login_manager_proxy w = open_dbus_connection w"

subsection \<open>\<open>_log_shutdown_inhibitors\<close>\<close>

text \<open>Python's \<open>sub in s\<close> on strings.\<close>

fun contains :: "string \<Rightarrow> string \<Rightarrow> bool" where
  "contains sub [] = (sub = [])"
| "contains sub (c # cs) = (take (length sub) (c # cs) = sub \<or> contains sub cs)"

text \<open>
  The \<open>for\<close> loop over the inhibitors: the flag \<open>found_inhibitor\<close> is threaded through,
  and every entry whose \<open>what\<close> contains \<open>shutdown\<close> is logged at debug level.
\<close>

fun inhibitors_loop :: "inhibitor list \<Rightarrow> bool \<Rightarrow> bool \<times> event list" where
  "inhibitors_loop [] found_inhibitor = (found_inhibitor, [])"
| "inhibitors_loop (i # rest) found_inhibitor =
     (if contains ''shutdown'' (what i)
      then (case inhibitors_loop rest True of
              (f, es) \<Rightarrow>
                (f, Log DEBUG ''detected shutdown inhibitor %s (pid=%u, uid=%u, mode=%s): %s''
                      [Str (who i), UInt (pid i), UInt (uid i), Str (mode i), Str (why i)] # es))
      else inhibitors_loop rest found_inhibitor)"

definition log_shutdown_inhibitors :: "world \<Rightarrow> proxy \<Rightarrow> (exn + unit) \<times> event list" where
  "log_shutdown_inhibitors w login_manager_proxy =
     (if effective_level w > DEBUG then (Inr (), [])
      else
        (case reply_ListInhibitors login_manager_proxy ListInhibitors of
           Inl (DBusErrorResponse n d) \<Rightarrow>
             (Inr (),
              [Send ListInhibitors,
               Log WARNING ''failed to fetch shutdown inhibitors: %s'' [Exc (DBusErrorResponse n d)]])
         | Inl e \<Rightarrow> (Inl e, [Send ListInhibitors])
         | Inr inhibitors \<Rightarrow>
             (case inhibitors_loop inhibitors False of
                (found_inhibitor, es) \<Rightarrow>
                  (Inr (),
                   Send ListInhibitors # es @
                   (if \<not> found_inhibitor then [Log DEBUG ''no shutdown inhibitor locks found'' []]
                    else [])))))"

subsection \<open>\<open>schedule_shutdown\<close>, \<open>suspend\<close>, \<open>lock_all_sessions\<close>\<close>

text \<open>
  The handler of \<open>except jeepney.wrappers.DBusErrorResponse as exc\<close> in
  \<open>schedule_shutdown\<close>: one error-level log call, whose text depends on whether the
  error is logind's refusal for want of interactive authorisation.
\<close>

definition schedule_failure_log :: "string \<Rightarrow> string \<Rightarrow> dbus_value list \<Rightarrow> event" where
  "schedule_failure_log action n d =
     (if n = ''org.freedesktop.DBus.Error.InteractiveAuthorizationRequired''
         \<and> d = [DBusString ''Interactive authentication required.'']
      then Log ERROR ''failed to schedule %s: unauthorized; missing polkit authorization rules?''
             [Str action]
      else Log ERROR ''failed to schedule %s: %s'' [Str action, Exc (DBusErrorResponse n d)])"

text \<open>
  \<open>schedule_shutdown\<close>. The assertion on the action comes first; then
  \<open>datetime.datetime.now() + delay\<close>, which may raise before anything is logged; then the
  info record, the proxy, and the call inside \<open>try\<close>. An exception that is not a
  \<open>DBusErrorResponse\<close>, from building the message or from the call, leaves the function;
  after a return or a handled \<open>DBusErrorResponse\<close> the inhibitors are logged.
\<close>

definition schedule_shutdown :: "world \<Rightarrow> string \<Rightarrow> int \<Rightarrow> (exn + unit) \<times> event list" where
  "schedule_shutdown w action delay =
     (if action \<notin> set [''poweroff'', ''reboot''] then (Inl (AssertionError action), [])
      else
        (case datetime_add (now w) delay of
           Inl e \<Rightarrow> (Inl e, [])
         | Inr time \<Rightarrow>
             let scheduling = Log INFO ''scheduling %s for %s''
                                [Str action, Strftime ''%Y-%m-%d %H:%M:%S'' time]
             in
             (case get_login_manager_proxy w of
                Inl e \<Rightarrow> (Inl e, [scheduling])
              | Inr login_manager \<Rightarrow>
                  (case ScheduleShutdown w action time of
                     Inl e \<Rightarrow> (Inl e, [scheduling])
                   | Inr m \<Rightarrow>
                       (case reply_ScheduleShutdown login_manager m of
                          Inl (DBusErrorResponse n d) \<Rightarrow>
                            (case log_shutdown_inhibitors w login_manager of
                               (r, es) \<Rightarrow>
                                 (r, [scheduling, Send m, schedule_failure_log action n d] @ es))
                        | Inl e \<Rightarrow> (Inl e, [scheduling, Send m])
                        | Inr u \<Rightarrow>
                            (case log_shutdown_inhibitors w login_manager of
                               (r, es) \<Rightarrow> (r, [scheduling, Send m] @ es)))))))"

definition suspend :: "world \<Rightarrow> (exn + unit) \<times> event list" where
  "suspend w =
     (let suspending = Log INFO ''suspending system'' [] in
      case get_login_manager_proxy w of
        Inl e \<Rightarrow> (Inl e, [suspending])
      | Inr p \<Rightarrow>
          (case reply_Suspend p (Suspend False) of
             Inl e \<Rightarrow> (Inl e, [suspending, Send (Suspend False)])
           | Inr u \<Rightarrow> (Inr (), [suspending, Send (Suspend False)])))"

definition lock_all_sessions :: "world \<Rightarrow> (exn + unit) \<times> event list" where
  "lock_all_sessions w =
     (let locking = Log INFO ''instruct all sessions to activate screen locks'' [] in
      case get_login_manager_proxy w of
        Inl e \<Rightarrow> (Inl e, [locking])
      | Inr p \<Rightarrow>
          (case reply_LockSessions p LockSessions of
             Inl e \<Rightarrow> (Inl e, [locking, Send LockSessions])
           | Inr u \<Rightarrow> (Inr (), [locking, Send LockSessions])))"

subsection \<open>Observations and a sample environment\<close>

text \<open>\<open>is_call method e\<close>: the event \<open>e\<close> is a method call of that name sent over the bus.\<close>

definition is_call :: "string \<Rightarrow> event \<Rightarrow> bool" where
  "is_call method e = (case e of Send m \<Rightarrow> member m = method | Log l f a \<Rightarrow> False)"

text \<open>
  The outcome of a proxy call is a method return or a \<open>DBusErrorResponse\<close>, the one
  exception that the module's handlers name.
\<close>

definition returned_or_dbus_error :: "exn + 'a \<Rightarrow> bool" where
  "returned_or_dbus_error r =
     (case r of Inr v \<Rightarrow> True | Inl (DBusErrorResponse n d) \<Rightarrow> True | Inl e \<Rightarrow> False)"

text \<open>
  A host without polkit rules for the caller: logind refuses \<open>ScheduleShutdown\<close> with the
  error that \<open>schedule_shutdown\<close> tests for, and the bus refuses \<open>ListInhibitors\<close>. The
  logger is at debug level. The clock reads noon of 2026-11-04, the time zone is UTC
  (the epoch is day 719163), and the float timestamp lies a quarter of a microsecond
  past the exact one.
\<close>

definition unauthorized_proxy :: proxy where
  "unauthorized_proxy =
     \<lparr>reply_ScheduleShutdown =
        (\<lambda>m. Inl (DBusErrorResponse ''org.freedesktop.DBus.Error.InteractiveAuthorizationRequired''
                     [DBusString ''Interactive authentication required.''])),
      reply_ListInhibitors =
        (\<lambda>m. Inl (DBusErrorResponse ''org.freedesktop.DBus.Error.AccessDenied''
                     [DBusString ''Sender is not authorized to send message''])),
      reply_Suspend = (\<lambda>m. Inr ()),
      reply_LockSessions = (\<lambda>m. Inr ())\<rparr>"

definition unauthorized_world :: world where
  "unauthorized_world =
     \<lparr>now = 63929390400000000, effective_level = DEBUG,
      timestamp = (\<lambda>t. Inr (real_of_int (t - 62135596800000000) / 1000000 + 1 / 4000000)),
      float_mul = (\<lambda>x y. x * y),
      open_dbus_connection = Inr unauthorized_proxy\<rparr>"

section \<open>The message callback of the dispatcher\<close>

text \<open>
  The callback registered for the action topics (\<open>mqtt_message_callback\<close> of the entries
  of \<open>_MQTT_TOPIC_SUFFIX_ACTION_MAPPING\<close>) is defined in \<open>systemctl_mqtt/__init__.py\<close>,
  which is not among the sources; \<open>tests/test_mqtt.py\<close> exercises it. The definitions of
  this section follow the specification's \<open>onMessage\<close> (section 4.4) and take the log
  texts from the assertions of the tests.
\<close>

text \<open>
  Modelled from the spec: \<open>InboundMessage\<close> of section 3,
  \<open>{ topic: string, payload: bytes, retained: bool }\<close>; the payload is a list of bytes.
\<close>

record inbound_message =
  topic :: string
  payload :: string
  retained :: bool

text \<open>
  Modelled from the spec: an entry of the action table, which is missing from the
  sources, after \<open>ActionDescriptor\<close> of section 3,
  \<open>{ name: string, invoke: () -> Result }\<close>. The action runs against a host whose state
  has the type \<open>'h\<close> and reports an error or none. \<open>action_repr\<close> is the text that
  Python's \<open>%r\<close> prints for the callable, which the tests expect in the log records.
\<close>

record 'h action_descriptor =
  name :: string
  action_repr :: string
  invoke :: "'h \<Rightarrow> string option \<times> 'h"

text \<open>
  Modelled from the spec: what \<open>onMessage\<close> does, in order: a log record (its level and
  its text) or the invocation of the action of that name.
\<close>

datatype dispatch_event = LogRecord nat string | Invoke string

text \<open>
  Python's \<open>repr\<close> of a \<open>bytes\<close> object, which \<open>payload=%r\<close> prints: the quote is the
  double quote when the bytes hold a single quote and no double quote; the quote and
  the backslash are escaped, tab, newline and carriage return are written \<open>\t\<close>, \<open>\n\<close>,
  \<open>\r\<close>, and every other byte outside the printable ASCII range as \<open>\xhh\<close>.
\<close>

definition hex_digit :: "nat \<Rightarrow> char" where
  "hex_digit n = ''0123456789abcdef'' ! (n mod 16)"

definition bytes_repr_byte :: "char \<Rightarrow> char \<Rightarrow> string" where
  "bytes_repr_byte quote c =
     (if c = quote \<or> c = CHR 0x5C then [CHR 0x5C, c]
      else if c = CHR 0x09 then [CHR 0x5C, CHR ''t'']
      else if c = CHR 0x0A then [CHR 0x5C, CHR ''n'']
      else if c = CHR 0x0D then [CHR 0x5C, CHR ''r'']
      else if (of_char c :: nat) < 32 \<or> 127 \<le> (of_char c :: nat)
      then [CHR 0x5C, CHR ''x'', hex_digit (of_char c div 16), hex_digit (of_char c mod 16)]
      else [c])"

definition bytes_repr :: "string \<Rightarrow> string" where
  "bytes_repr bs =
     (let quote = (if CHR 0x27 \<in> set bs \<and> CHR 0x22 \<notin> set bs then CHR 0x22 else CHR 0x27)
      in [CHR ''b'', quote] @ concat (map (bytes_repr_byte quote) bs) @ [quote])"

text \<open>
  Modelled from the spec: a subscribed topic is the configured prefix, a slash and the
  suffix of an action (\<open>TopicPrefix\<close>, section 3); \<open>topic_suffix\<close> reads the suffix back
  from a topic under the prefix.
\<close>

definition topic_suffix :: "string \<Rightarrow> string \<Rightarrow> string option" where
  "topic_suffix prefix t =
     (if take (length prefix + 1) t = prefix @ ''/'' then Some (drop (length prefix + 1) t)
      else None)"

text \<open>
  Modelled from the spec: the lookup in the action table
  \<open>_MQTT_TOPIC_SUFFIX_ACTION_MAPPING\<close>, which is missing from the sources, after
  \<open>ActionRegistry.resolve\<close> of section 4.1: a pure lookup of the suffix that returns
  none for an unknown one. The registry is the table of suffixes and descriptors.
\<close>

definition resolve ::
  "(string \<times> 'h action_descriptor) list \<Rightarrow> string \<Rightarrow> 'h action_descriptor option" where
  "resolve registry suffix = map_of registry suffix"

text \<open>
  Modelled from the spec: step 1 of \<open>onMessage\<close>, the receipt logged at debug level, with
  the text that the tests assert.
\<close>

definition received :: "inbound_message \<Rightarrow> dispatch_event" where
  "received msg =
     LogRecord DEBUG (''received topic='' @ topic msg @ '' payload='' @ bytes_repr (payload msg))"

text \<open>
  Modelled from the spec: the completion record of step 4 includes the action's error,
  if any.
\<close>

definition error_suffix :: "string option \<Rightarrow> string" where
  "error_suffix r = (case r of None \<Rightarrow> [] | Some e \<Rightarrow> '': '' @ e)"

text \<open>
  Modelled from the spec: the message callback \<open>mqtt_message_callback\<close>, which is
  missing from the sources, after \<open>onMessage\<close> of section 4.4. (1) The receipt is logged at debug
  level. (2) A retained message is logged at info level as ignored, and the callback
  stops. (3) The suffix of the topic is resolved in the registry; without an entry the
  callback logs and stops (the spec fixes neither level nor text of that record).
  (4) The action is invoked, between a start record and a completion record at debug
  level; its failure is caught and logged with the completion.
\<close>

definition on_message ::
  "string \<Rightarrow> (string \<times> 'h action_descriptor) list \<Rightarrow> inbound_message \<Rightarrow> 'h
     \<Rightarrow> dispatch_event list \<times> 'h" where
  "on_message prefix registry msg h =
     (if retained msg then ([received msg, LogRecord INFO ''ignoring retained message''], h)
      else
        (case (case topic_suffix prefix (topic msg) of
                 None \<Rightarrow> None | Some suffix \<Rightarrow> resolve registry suffix) of
           None \<Rightarrow> ([received msg, LogRecord DEBUG (''no action for topic '' @ topic msg)], h)
         | Some d \<Rightarrow>
             (case invoke d h of
                (r, h') \<Rightarrow>
                  ([received msg,
                    LogRecord DEBUG
                      (''executing action '' @ name d @ '' ('' @ action_repr d @ '')''),
                    Invoke (name d),
                    LogRecord DEBUG
                      (''completed action '' @ name d @ '' ('' @ action_repr d @ '')''
                       @ error_suffix r)],
                   h'))))"

subsection \<open>Observations and the fixtures of the tests\<close>

definition is_invoke :: "dispatch_event \<Rightarrow> bool" where
  "is_invoke e = (case e of Invoke n \<Rightarrow> True | LogRecord l m \<Rightarrow> False)"

text \<open>
  The fixtures of \<open>test_mqtt_message_callback_poweroff\<close> and of its retained variant: the
  action of the entry \<open>poweroff\<close> is replaced by a mock, which counts its calls, and the
  message is published on \<open>system/command/poweroff\<close>.
\<close>

definition action_mock :: "nat action_descriptor" where
  "action_mock =
     \<lparr>name = ''poweroff'', action_repr = ''<MagicMock>'',
      invoke = (\<lambda>calls. (None, Suc calls))\<rparr>"

definition poweroff_message :: "string \<Rightarrow> bool \<Rightarrow> inbound_message" where
  "poweroff_message p r = \<lparr>topic = ''system/command/poweroff'', payload = p, retained = r\<rparr>"

section \<open>Properties of the logind client\<close>

subsection \<open>Auxiliary facts\<close>

lemma inhibitors_loop_logs_only:
  "\<not> is_call meth e" if "e \<in> set (snd (inhibitors_loop is f))"
  using that
  by (induction "is" f rule: inhibitors_loop.induct)
     (auto simp: is_call_def split: if_splits prod.splits)

lemma inhibitors_loop_no_call:
  "filter (is_call meth) (snd (inhibitors_loop is f)) = []"
  by (simp add: filter_empty_conv inhibitors_loop_logs_only)

lemma log_shutdown_inhibitors_not_dbus_error:
  "fst (log_shutdown_inhibitors w p) \<noteq> Inl (DBusErrorResponse n d)"
  by (auto simp: log_shutdown_inhibitors_def split: sum.splits exn.splits prod.splits)

lemma log_shutdown_inhibitors_calls:
  "meth \<noteq> ''ListInhibitors'' \<Longrightarrow>
   filter (is_call meth) (snd (log_shutdown_inhibitors w p)) = []"
  using inhibitors_loop_no_call[of meth]
  apply (auto simp: log_shutdown_inhibitors_def is_call_def ListInhibitors_def new_method_call_def
              split: sum.splits exn.splits prod.splits)
  by (metis snd_conv)

lemma log_shutdown_inhibitors_completes:
  "returned_or_dbus_error (reply_ListInhibitors p ListInhibitors) \<Longrightarrow>
   fst (log_shutdown_inhibitors w p) = Inr ()"
  by (auto simp: log_shutdown_inhibitors_def returned_or_dbus_error_def
           split: sum.splits exn.splits prod.splits)

lemma datetime_add_Inr: "datetime_add t delta = Inr time \<Longrightarrow> time = t + delta"
  by (simp add: datetime_add_def split: if_splits)

lemma datetime_add_in_range:
  "0 \<le> t + delta \<Longrightarrow> t + delta \<le> DATETIME_MAX \<Longrightarrow> datetime_add t delta = Inr (t + delta)"
  by (simp add: datetime_add_def)

lemma datetime_add_overflow:
  "\<not> (0 \<le> t + delta \<and> t + delta \<le> DATETIME_MAX) \<Longrightarrow>
   datetime_add t delta = Inl (OtherError ''OverflowError'')"
  by (simp add: datetime_add_def)

text \<open>
  Once the assertion on the action has passed, the target time is in range, the bus
  is open and the message is built, \<open>schedule_shutdown\<close> is decided by the reply to its
  one \<open>ScheduleShutdown\<close> call.
\<close>

lemma schedule_shutdown_reached:
  assumes "action \<in> set [''poweroff'', ''reboot'']"
    and "datetime_add (now w) delay = Inr time"
    and "open_dbus_connection w = Inr p"
    and "ScheduleShutdown w action time = Inr m"
  shows "schedule_shutdown w action delay =
     (let scheduling = Log INFO ''scheduling %s for %s''
                         [Str action, Strftime ''%Y-%m-%d %H:%M:%S'' time]
      in case reply_ScheduleShutdown p m of
           Inl (DBusErrorResponse n d) \<Rightarrow>
             (fst (log_shutdown_inhibitors w p),
              [scheduling, Send m, schedule_failure_log action n d]
              @ snd (log_shutdown_inhibitors w p))
         | Inl e \<Rightarrow> (Inl e, [scheduling, Send m])
         | Inr u \<Rightarrow>
             (fst (log_shutdown_inhibitors w p),
              [scheduling, Send m] @ snd (log_shutdown_inhibitors w p)))"
  using assms
  by (simp add: schedule_shutdown_def get_login_manager_proxy_def Let_def
           split: prod.splits sum.splits exn.splits)

lemma ScheduleShutdown_message:
  "timestamp w t = Inr s \<Longrightarrow>
   ScheduleShutdown w action t =
     Inr \<lparr>destination = ''org.freedesktop.login1'', object_path = ''/org/freedesktop/login1'',
          interface = ''org.freedesktop.login1.Manager'', member = ''ScheduleShutdown'',
          signature = ''st'',
          body = [DBusString action, DBusUInt64 (py_int (float_mul w s 1000000))]\<rparr>"
  by (simp add: ScheduleShutdown_def new_method_call_def LoginManager_def
        LOGIN_MANAGER_OBJECT_PATH_def LOGIN_MANAGER_INTERFACE_def)

lemma is_call_ScheduleShutdown:
  "ScheduleShutdown w action t = Inr m \<Longrightarrow> is_call ''ScheduleShutdown'' (Send m)"
  by (auto simp: is_call_def ScheduleShutdown_def new_method_call_def split: sum.splits)

lemma not_is_call_Log: "\<not> is_call meth (Log l f a)"
  by (simp add: is_call_def)

lemma schedule_failure_log_is_Log:
  "\<not> is_call meth (schedule_failure_log action n d)"
  by (simp add: is_call_def schedule_failure_log_def)

lemma py_int_truncates:
  "\<bar>real_of_int (py_int x)\<bar> \<le> \<bar>x\<bar> \<and> \<bar>x - real_of_int (py_int x)\<bar> < 1"
  unfolding py_int_def by (auto; linarith)

lemma unauthorized_world_simps:
  "open_dbus_connection unauthorized_world = Inr unauthorized_proxy"
  "effective_level unauthorized_world = DEBUG"
  "now unauthorized_world = 63929390400000000"
  by (simp_all add: unauthorized_world_def)

lemma unauthorized_proxy_simps:
  "reply_ScheduleShutdown unauthorized_proxy m =
     Inl (DBusErrorResponse ''org.freedesktop.DBus.Error.InteractiveAuthorizationRequired''
            [DBusString ''Interactive authentication required.''])"
  "reply_ListInhibitors unauthorized_proxy m =
     Inl (DBusErrorResponse ''org.freedesktop.DBus.Error.AccessDenied''
            [DBusString ''Sender is not authorized to send message''])"
  by (simp_all add: unauthorized_proxy_def)

lemma unauthorized_world_target:
  "datetime_add (now unauthorized_world) 2000000 = Inr 63929390402000000"
  by (simp add: datetime_add_def DATETIME_MAX_def unauthorized_world_simps)

lemma unauthorized_world_timestamp:
  "timestamp unauthorized_world 63929390402000000 = Inr (1793793602 + 1 / 4000000)"
  by (simp add: unauthorized_world_def)

lemma unauthorized_world_float_mul: "float_mul unauthorized_world x y = x * y"
  by (simp add: unauthorized_world_def)

lemma unauthorized_world_message:
  "ScheduleShutdown unauthorized_world action 63929390402000000 =
     Inr \<lparr>destination = ''org.freedesktop.login1'', object_path = ''/org/freedesktop/login1'',
          interface = ''org.freedesktop.login1.Manager'', member = ''ScheduleShutdown'',
          signature = ''st'', body = [DBusString action, DBusUInt64 1793793602000000]\<rparr>"
  using ScheduleShutdown_message[OF unauthorized_world_timestamp, of action]
  by (simp add: unauthorized_world_float_mul py_int_def)

subsection \<open>A D-Bus error on \<open>ScheduleShutdown\<close> is logged, not retried, not raised\<close>

text \<open>
  Claim C7. Whenever logind answers the \<open>ScheduleShutdown\<close> call with a D-Bus error
  response, \<open>schedule_shutdown\<close> makes an error-level log call whose arguments name the
  action; for the error \<open>InteractiveAuthorizationRequired\<close> with the data
  \<open>('Interactive authentication required.',)\<close> it is the record about missing polkit
  rules. The call is sent exactly once, so nothing is retried, and no
  \<open>DBusErrorResponse\<close> leaves the function, whatever the error was. That the host
  answers the call means that the call was made: the action passed the assertion, the
  target time \<open>now + delay\<close> exists, the bus is open and the message \<open>m\<close> was built.
\<close>

theorem schedule_shutdown_dbus_error_logged:
  assumes "action \<in> set [''poweroff'', ''reboot'']"
    and "datetime_add (now w) delay = Inr time"
    and "open_dbus_connection w = Inr p"
    and "ScheduleShutdown w action time = Inr m"
    and "reply_ScheduleShutdown p m = Inl (DBusErrorResponse n d)"
  shows "schedule_failure_log action n d \<in> set (snd (schedule_shutdown w action delay))
    \<and> (\<exists>fmt args. schedule_failure_log action n d = Log ERROR fmt args \<and> Str action \<in> set args)
    \<and> (n = ''org.freedesktop.DBus.Error.InteractiveAuthorizationRequired''
         \<and> d = [DBusString ''Interactive authentication required.'']
       \<longrightarrow> schedule_failure_log action n d =
             Log ERROR ''failed to schedule %s: unauthorized; missing polkit authorization rules?''
               [Str action])
    \<and> length (filter (is_call ''ScheduleShutdown'') (snd (schedule_shutdown w action delay))) = 1
    \<and> (\<forall>n' d'. fst (schedule_shutdown w action delay) \<noteq> Inl (DBusErrorResponse n' d'))"
proof -
  have r: "schedule_shutdown w action delay =
      (fst (log_shutdown_inhibitors w p),
       [Log INFO ''scheduling %s for %s'' [Str action, Strftime ''%Y-%m-%d %H:%M:%S'' time],
        Send m, schedule_failure_log action n d]
       @ snd (log_shutdown_inhibitors w p))"
    using assms(5) by (simp add: schedule_shutdown_reached[OF assms(1-4)] Let_def)
  have "length (filter (is_call ''ScheduleShutdown'') (snd (schedule_shutdown w action delay))) = 1"
    using log_shutdown_inhibitors_calls[of "''ScheduleShutdown''" w p]
    by (simp add: r is_call_ScheduleShutdown[OF assms(4)] not_is_call_Log
          schedule_failure_log_is_Log)
  moreover have "\<exists>fmt args. schedule_failure_log action n d = Log ERROR fmt args
      \<and> Str action \<in> set args"
    by (simp add: schedule_failure_log_def)
  ultimately show ?thesis
    using log_shutdown_inhibitors_not_dbus_error[of w p]
    by (simp add: r schedule_failure_log_def)
qed

theorem schedule_shutdown_dbus_error_logged_witness:
  "''poweroff'' \<in> set [''poweroff'', ''reboot'']
   \<and> datetime_add (now unauthorized_world) 2000000 = Inr 63929390402000000
   \<and> open_dbus_connection unauthorized_world = Inr unauthorized_proxy
   \<and> ScheduleShutdown unauthorized_world ''poweroff'' 63929390402000000 =
       Inr \<lparr>destination = ''org.freedesktop.login1'', object_path = ''/org/freedesktop/login1'',
            interface = ''org.freedesktop.login1.Manager'', member = ''ScheduleShutdown'',
            signature = ''st'',
            body = [DBusString ''poweroff'', DBusUInt64 1793793602000000]\<rparr>
   \<and> reply_ScheduleShutdown unauthorized_proxy
        \<lparr>destination = ''org.freedesktop.login1'', object_path = ''/org/freedesktop/login1'',
         interface = ''org.freedesktop.login1.Manager'', member = ''ScheduleShutdown'',
         signature = ''st'',
         body = [DBusString ''poweroff'', DBusUInt64 1793793602000000]\<rparr>
       = Inl (DBusErrorResponse ''org.freedesktop.DBus.Error.InteractiveAuthorizationRequired''
                [DBusString ''Interactive authentication required.''])
   \<and> Log ERROR ''failed to schedule %s: unauthorized; missing polkit authorization rules?''
        [Str ''poweroff'']
       \<in> set (snd (schedule_shutdown unauthorized_world ''poweroff'' 2000000))
   \<and> length (filter (is_call ''ScheduleShutdown'')
               (snd (schedule_shutdown unauthorized_world ''poweroff'' 2000000))) = 1
   \<and> fst (schedule_shutdown unauthorized_world ''poweroff'' 2000000) = Inr ()"
proof -
  have h1: "''poweroff'' \<in> set [''poweroff'', ''reboot'']" by simp
  note h2 = unauthorized_world_target
  have h3: "open_dbus_connection unauthorized_world = Inr unauthorized_proxy"
    by (simp add: unauthorized_world_simps)
  note h4 = unauthorized_world_message[of "''poweroff''"]
  have h5: "reply_ScheduleShutdown unauthorized_proxy
        \<lparr>destination = ''org.freedesktop.login1'', object_path = ''/org/freedesktop/login1'',
         interface = ''org.freedesktop.login1.Manager'', member = ''ScheduleShutdown'',
         signature = ''st'',
         body = [DBusString ''poweroff'', DBusUInt64 1793793602000000]\<rparr>
       = Inl (DBusErrorResponse ''org.freedesktop.DBus.Error.InteractiveAuthorizationRequired''
                [DBusString ''Interactive authentication required.''])"
    by (simp add: unauthorized_proxy_simps)
  have c: "fst (schedule_shutdown unauthorized_world ''poweroff'' 2000000) = Inr ()"
    using h5
    by (simp add: schedule_shutdown_reached[OF h1 h2 h3 h4] Let_def log_shutdown_inhibitors_def
          unauthorized_world_simps unauthorized_proxy_simps)
  from schedule_shutdown_dbus_error_logged[OF h1 h2 h3 h4 h5] h1 h2 h3 h4 h5 c show ?thesis
    by auto
qed

subsection \<open>A failed inhibitor query is logged as a warning and never raised\<close>

text \<open>
  Claim C9. When the \<open>ListInhibitors\<close> query is answered with a D-Bus error response,
  \<open>_log_shutdown_inhibitors\<close> returns normally; it has sent the query and logged the
  failure at warning level (unless the logger is above debug level, where it returns
  before querying at all). And \<open>schedule_shutdown\<close> returns normally whether the query
  returned a list or a D-Bus error, provided its own \<open>ScheduleShutdown\<close> call was made
  and returned or was answered with a D-Bus error.
\<close>

theorem log_shutdown_inhibitors_failure_not_propagated:
  "(reply_ListInhibitors p ListInhibitors = Inl (DBusErrorResponse n d) \<longrightarrow>
      log_shutdown_inhibitors w p =
        (Inr (),
         if effective_level w > DEBUG then []
         else [Send ListInhibitors,
               Log WARNING ''failed to fetch shutdown inhibitors: %s''
                 [Exc (DBusErrorResponse n d)]]))
   \<and> (action \<in> set [''poweroff'', ''reboot''] \<and> datetime_add (now w) delay = Inr time
       \<and> open_dbus_connection w = Inr p \<and> ScheduleShutdown w action time = Inr m
       \<and> returned_or_dbus_error (reply_ScheduleShutdown p m)
       \<and> returned_or_dbus_error (reply_ListInhibitors p ListInhibitors)
      \<longrightarrow> fst (schedule_shutdown w action delay) = Inr ())"
proof (intro conjI impI)
  assume "reply_ListInhibitors p ListInhibitors = Inl (DBusErrorResponse n d)"
  then show "log_shutdown_inhibitors w p =
        (Inr (),
         if effective_level w > DEBUG then []
         else [Send ListInhibitors,
               Log WARNING ''failed to fetch shutdown inhibitors: %s''
                 [Exc (DBusErrorResponse n d)]])"
    by (simp add: log_shutdown_inhibitors_def)
next
  assume a: "action \<in> set [''poweroff'', ''reboot''] \<and> datetime_add (now w) delay = Inr time
       \<and> open_dbus_connection w = Inr p \<and> ScheduleShutdown w action time = Inr m
       \<and> returned_or_dbus_error (reply_ScheduleShutdown p m)
       \<and> returned_or_dbus_error (reply_ListInhibitors p ListInhibitors)"
  then have "fst (log_shutdown_inhibitors w p) = Inr ()"
    by (simp add: log_shutdown_inhibitors_completes)
  with a show "fst (schedule_shutdown w action delay) = Inr ()"
    by (auto simp: schedule_shutdown_reached[of action w delay time p m] Let_def
               returned_or_dbus_error_def
             split: sum.splits exn.splits)
qed

theorem log_shutdown_inhibitors_failure_not_propagated_witness:
  "reply_ListInhibitors unauthorized_proxy ListInhibitors =
     Inl (DBusErrorResponse ''org.freedesktop.DBus.Error.AccessDenied''
            [DBusString ''Sender is not authorized to send message''])
   \<and> log_shutdown_inhibitors unauthorized_world unauthorized_proxy =
       (Inr (),
        [Send ListInhibitors,
         Log WARNING ''failed to fetch shutdown inhibitors: %s''
           [Exc (DBusErrorResponse ''org.freedesktop.DBus.Error.AccessDenied''
                   [DBusString ''Sender is not authorized to send message''])]])
   \<and> datetime_add (now unauthorized_world) 2000000 = Inr 63929390402000000
   \<and> returned_or_dbus_error (reply_ScheduleShutdown unauthorized_proxy
        \<lparr>destination = ''org.freedesktop.login1'', object_path = ''/org/freedesktop/login1'',
         interface = ''org.freedesktop.login1.Manager'', member = ''ScheduleShutdown'',
         signature = ''st'',
         body = [DBusString ''poweroff'', DBusUInt64 1793793602000000]\<rparr>)
   \<and> fst (schedule_shutdown unauthorized_world ''poweroff'' 2000000) = Inr ()"
  using log_shutdown_inhibitors_failure_not_propagated
    [of unauthorized_proxy "''org.freedesktop.DBus.Error.AccessDenied''"
        "[DBusString ''Sender is not authorized to send message'']" unauthorized_world
        "''poweroff''" 2000000 63929390402000000
        "\<lparr>destination = ''org.freedesktop.login1'', object_path = ''/org/freedesktop/login1'',
          interface = ''org.freedesktop.login1.Manager'', member = ''ScheduleShutdown'',
          signature = ''st'',
          body = [DBusString ''poweroff'', DBusUInt64 1793793602000000]\<rparr>"]
    unauthorized_world_target unauthorized_world_message[of "''poweroff''"]
  by (simp add: unauthorized_world_simps unauthorized_proxy_simps returned_or_dbus_error_def)

subsection \<open>The body of the \<open>ScheduleShutdown\<close> message\<close>

text \<open>
  Claim C10, as stated: for every delay, \<open>schedule_shutdown\<close> targets \<open>now + delay\<close> and
  builds a \<open>ScheduleShutdown\<close> message for it. It does not for every delay: at noon of
  2026-11-04 the delay \<open>timedelta(seconds=1e12)\<close> leads past the year 9999, the addition
  raises \<open>OverflowError\<close>, and nothing is logged or sent.
\<close>

theorem schedule_shutdown_every_delay_counterexample:
  "''poweroff'' \<in> set [''poweroff'', ''reboot'']
   \<and> open_dbus_connection unauthorized_world = Inr unauthorized_proxy
   \<and> schedule_shutdown unauthorized_world ''poweroff'' 1000000000000000000 =
       (Inl (OtherError ''OverflowError''), [])
   \<and> filter (is_call ''ScheduleShutdown'')
        (snd (schedule_shutdown unauthorized_world ''poweroff'' 1000000000000000000)) = []"
  by (simp add: schedule_shutdown_def datetime_add_def DATETIME_MAX_def unauthorized_world_simps)

text \<open>
  Claim C10, amended. For the actions \<open>poweroff\<close> and \<open>reboot\<close> and every delay for
  which \<open>now + delay\<close> is a \<open>datetime\<close> (within the years 1 to 9999) whose \<open>timestamp()\<close>
  returns, the one \<open>ScheduleShutdown\<close> message that \<open>schedule_shutdown\<close> sends is built
  for the time \<open>now + delay\<close>, the time that its first log call announces; its
  signature is \<open>st\<close> and its body is the action followed by \<open>int(t.timestamp() * 1e6)\<close>
  for that time \<open>t\<close>, where \<open>int\<close> truncates toward zero: the integer is no larger in
  magnitude than the float and less than one away from it. So the integer is the time
  in microseconds since the epoch, as the float timestamp gives it, up to less than
  one microsecond and the rounding of the float product. For a delay that leads out of
  the range the addition raises \<open>OverflowError\<close> before anything is logged or sent, and
  when \<open>timestamp()\<close> raises, its exception leaves the function and no message is sent.
\<close>

theorem schedule_shutdown_message_body:
  assumes "action \<in> set [''poweroff'', ''reboot'']"
    and "open_dbus_connection w = Inr p"
  shows "(0 \<le> now w + delay \<and> now w + delay \<le> DATETIME_MAX
          \<and> timestamp w (now w + delay) = Inr s \<longrightarrow>
            filter (is_call ''ScheduleShutdown'') (snd (schedule_shutdown w action delay)) =
              [Send \<lparr>destination = ''org.freedesktop.login1'',
                     object_path = ''/org/freedesktop/login1'',
                     interface = ''org.freedesktop.login1.Manager'',
                     member = ''ScheduleShutdown'', signature = ''st'',
                     body = [DBusString action,
                             DBusUInt64 (py_int (float_mul w s 1000000))]\<rparr>]
          \<and> hd (snd (schedule_shutdown w action delay)) =
              Log INFO ''scheduling %s for %s''
                [Str action, Strftime ''%Y-%m-%d %H:%M:%S'' (now w + delay)]
          \<and> \<bar>real_of_int (py_int (float_mul w s 1000000)) - s * 1000000\<bar>
              < 1 + \<bar>float_mul w s 1000000 - s * 1000000\<bar>)
    \<and> \<bar>real_of_int (py_int x)\<bar> \<le> \<bar>x\<bar> \<and> \<bar>x - real_of_int (py_int x)\<bar> < 1
    \<and> (\<not> (0 \<le> now w + delay \<and> now w + delay \<le> DATETIME_MAX) \<longrightarrow>
          schedule_shutdown w action delay = (Inl (OtherError ''OverflowError''), []))
    \<and> (0 \<le> now w + delay \<and> now w + delay \<le> DATETIME_MAX
          \<and> timestamp w (now w + delay) = Inl e \<longrightarrow>
          schedule_shutdown w action delay =
            (Inl (OtherError e),
             [Log INFO ''scheduling %s for %s''
                [Str action, Strftime ''%Y-%m-%d %H:%M:%S'' (now w + delay)]]))"
proof (intro conjI impI)
  assume a: "0 \<le> now w + delay \<and> now w + delay \<le> DATETIME_MAX
          \<and> timestamp w (now w + delay) = Inr s"
  then have t: "datetime_add (now w) delay = Inr (now w + delay)"
    by (simp add: datetime_add_in_range)
  from a have m: "ScheduleShutdown w action (now w + delay) =
     Inr \<lparr>destination = ''org.freedesktop.login1'', object_path = ''/org/freedesktop/login1'',
          interface = ''org.freedesktop.login1.Manager'', member = ''ScheduleShutdown'',
          signature = ''st'',
          body = [DBusString action, DBusUInt64 (py_int (float_mul w s 1000000))]\<rparr>"
    by (simp add: ScheduleShutdown_message)
  show "filter (is_call ''ScheduleShutdown'') (snd (schedule_shutdown w action delay)) =
              [Send \<lparr>destination = ''org.freedesktop.login1'',
                     object_path = ''/org/freedesktop/login1'',
                     interface = ''org.freedesktop.login1.Manager'',
                     member = ''ScheduleShutdown'', signature = ''st'',
                     body = [DBusString action,
                             DBusUInt64 (py_int (float_mul w s 1000000))]\<rparr>]"
    using log_shutdown_inhibitors_calls[of "''ScheduleShutdown''" w p]
      is_call_ScheduleShutdown[OF m]
    by (simp add: schedule_shutdown_reached[OF assms(1) t assms(2) m] Let_def
          not_is_call_Log schedule_failure_log_is_Log split: sum.splits exn.splits)
  show "hd (snd (schedule_shutdown w action delay)) =
              Log INFO ''scheduling %s for %s''
                [Str action, Strftime ''%Y-%m-%d %H:%M:%S'' (now w + delay)]"
    by (simp add: schedule_shutdown_reached[OF assms(1) t assms(2) m] Let_def
          split: sum.splits exn.splits)
  show "\<bar>real_of_int (py_int (float_mul w s 1000000)) - s * 1000000\<bar>
              < 1 + \<bar>float_mul w s 1000000 - s * 1000000\<bar>"
    using py_int_truncates[of "float_mul w s 1000000"] by linarith
next
  show "\<bar>real_of_int (py_int x)\<bar> \<le> \<bar>x\<bar>" and "\<bar>x - real_of_int (py_int x)\<bar> < 1"
    using py_int_truncates[of x] by simp_all
next
  assume "\<not> (0 \<le> now w + delay \<and> now w + delay \<le> DATETIME_MAX)"
  then show "schedule_shutdown w action delay = (Inl (OtherError ''OverflowError''), [])"
    using assms(1) by (simp add: schedule_shutdown_def datetime_add_overflow)
next
  assume a: "0 \<le> now w + delay \<and> now w + delay \<le> DATETIME_MAX
          \<and> timestamp w (now w + delay) = Inl e"
  then show "schedule_shutdown w action delay =
            (Inl (OtherError e),
             [Log INFO ''scheduling %s for %s''
                [Str action, Strftime ''%Y-%m-%d %H:%M:%S'' (now w + delay)]])"
    using assms
    by (simp add: schedule_shutdown_def datetime_add_in_range get_login_manager_proxy_def
          ScheduleShutdown_def)
qed

theorem schedule_shutdown_message_body_witness:
  "''poweroff'' \<in> set [''poweroff'', ''reboot'']
   \<and> open_dbus_connection unauthorized_world = Inr unauthorized_proxy
   \<and> 0 \<le> now unauthorized_world + 2000000
   \<and> now unauthorized_world + 2000000 \<le> DATETIME_MAX
   \<and> timestamp unauthorized_world (now unauthorized_world + 2000000)
       = Inr (1793793602 + 1 / 4000000)
   \<and> filter (is_call ''ScheduleShutdown'')
        (snd (schedule_shutdown unauthorized_world ''poweroff'' 2000000))
       = [Send \<lparr>destination = ''org.freedesktop.login1'',
                object_path = ''/org/freedesktop/login1'',
                interface = ''org.freedesktop.login1.Manager'',
                member = ''ScheduleShutdown'', signature = ''st'',
                body = [DBusString ''poweroff'', DBusUInt64 1793793602000000]\<rparr>]
   \<and> \<not> (now unauthorized_world + 1000000000000000000 \<le> DATETIME_MAX)
   \<and> schedule_shutdown unauthorized_world ''poweroff'' 1000000000000000000 =
       (Inl (OtherError ''OverflowError''), [])"
proof -
  have h1: "''poweroff'' \<in> set [''poweroff'', ''reboot'']" by simp
  have h2: "open_dbus_connection unauthorized_world = Inr unauthorized_proxy"
    by (simp add: unauthorized_world_simps)
  have r: "0 \<le> now unauthorized_world + 2000000"
    "now unauthorized_world + 2000000 \<le> DATETIME_MAX"
    "\<not> (now unauthorized_world + 1000000000000000000 \<le> DATETIME_MAX)"
    by (simp_all add: unauthorized_world_simps DATETIME_MAX_def)
  have t: "timestamp unauthorized_world (now unauthorized_world + 2000000)
       = Inr (1793793602 + 1 / 4000000)"
    using unauthorized_world_timestamp by (simp add: unauthorized_world_simps)
  from schedule_shutdown_message_body
         [OF h1 h2, of 2000000 "1793793602 + 1 / 4000000" 0]
       schedule_shutdown_message_body
         [OF h1 h2, of 1000000000000000000 0 0]
       h1 h2 r t
  show ?thesis
    by (simp add: unauthorized_world_float_mul py_int_def)
qed

section \<open>Properties of the message callback\<close>

subsection \<open>Auxiliary facts and the repository's tests\<close>

lemma topic_suffix_concat: "topic_suffix prefix (prefix @ CHR ''/'' # suffix) = Some suffix"
  by (simp add: topic_suffix_def)

lemma on_message_retained:
  "retained msg \<Longrightarrow>
   on_message prefix registry msg h =
     ([received msg, LogRecord INFO ''ignoring retained message''], h)"
  by (simp add: on_message_def)

lemma bytes_repr_empty: "bytes_repr [] = [CHR ''b'', CHR 0x27, CHR 0x27]"
  by (simp add: bytes_repr_def Let_def)

lemma bytes_repr_junk: "bytes_repr ''junk'' = [CHR ''b'', CHR 0x27] @ ''junk'' @ [CHR 0x27]"
  by (simp add: bytes_repr_def bytes_repr_byte_def Let_def)

text \<open>
  The model passes \<open>test_mqtt_message_callback_poweroff\<close>: for the payloads \<open>b''\<close> and
  \<open>b'junk'\<close> the mock is called once and there are three debug records, the receipt,
  the start and the completion.
\<close>

lemma test_mqtt_message_callback_poweroff:
  "p \<in> {[], ''junk''} \<Longrightarrow>
   on_message ''system/command'' [(''poweroff'', action_mock)] (poweroff_message p False) 0 =
     ([LogRecord DEBUG
         (''received topic=system/command/poweroff payload=b'' @ [CHR 0x27] @ p @ [CHR 0x27]),
       LogRecord DEBUG ''executing action poweroff (<MagicMock>)'',
       Invoke ''poweroff'',
       LogRecord DEBUG ''completed action poweroff (<MagicMock>)''], 1)"
  by (auto simp add: on_message_def poweroff_message_def received_def bytes_repr_empty
        bytes_repr_junk topic_suffix_def resolve_def action_mock_def error_suffix_def)

text \<open>
  The model passes \<open>test_mqtt_message_callback_poweroff_retained\<close>: the mock is not
  called, and there are two records, the receipt at debug level and
  \<open>ignoring retained message\<close> at info level.
\<close>

lemma test_mqtt_message_callback_poweroff_retained:
  "p \<in> {[], ''junk''} \<Longrightarrow>
   on_message ''system/command'' [(''poweroff'', action_mock)] (poweroff_message p True) 0 =
     ([LogRecord DEBUG
         (''received topic=system/command/poweroff payload=b'' @ [CHR 0x27] @ p @ [CHR 0x27]),
       LogRecord INFO ''ignoring retained message''], 0)"
  by (auto simp add: on_message_def poweroff_message_def received_def bytes_repr_empty
        bytes_repr_junk)

subsection \<open>Retained messages never trigger an action\<close>

text \<open>
  Claim C1. For every message whose retained flag is set, whatever its topic and its
  payload, the callback invokes no action and leaves the host as it was; its last
  step is the info-level record \<open>ignoring retained message\<close>.
\<close>

theorem on_message_retained_never_invokes:
  assumes "retained msg"
  shows "filter is_invoke (fst (on_message prefix registry msg h)) = []
    \<and> snd (on_message prefix registry msg h) = h
    \<and> last (fst (on_message prefix registry msg h)) = LogRecord INFO ''ignoring retained message''"
  using assms by (simp add: on_message_retained is_invoke_def received_def)

theorem on_message_retained_never_invokes_witness:
  "retained (poweroff_message ''junk'' True)
   \<and> filter is_invoke
        (fst (on_message ''system/command'' [(''poweroff'', action_mock)]
                (poweroff_message ''junk'' True) 0)) = []
   \<and> snd (on_message ''system/command'' [(''poweroff'', action_mock)]
             (poweroff_message ''junk'' True) 0) = 0
   \<and> last (fst (on_message ''system/command'' [(''poweroff'', action_mock)]
                   (poweroff_message ''junk'' True) 0))
       = LogRecord INFO ''ignoring retained message''"
proof -
  have h: "retained (poweroff_message ''junk'' True)"
    by (simp add: poweroff_message_def)
  from on_message_retained_never_invokes[OF h] h show ?thesis
    by simp
qed

subsection \<open>A message on a registered topic runs its action once\<close>

text \<open>
  Claim C2. For every entry of the registry and every message that is not retained and
  is published on the prefix, a slash and the entry's suffix, with any payload, the
  callback invokes the entry's action and no other, once: the host is left as one run
  of the action leaves it. The callback emits, in this order, the debug record
  \<open>received topic=<topic> payload=<payload>\<close>, the start record, the invocation and the
  completion record.
\<close>

theorem on_message_invokes_registered_action:
  assumes "resolve registry suffix = Some d" and "\<not> retained msg"
    and "topic msg = prefix @ ''/'' @ suffix"
  shows "on_message prefix registry msg h =
     ([LogRecord DEBUG
         (''received topic='' @ topic msg @ '' payload='' @ bytes_repr (payload msg)),
       LogRecord DEBUG (''executing action '' @ name d @ '' ('' @ action_repr d @ '')''),
       Invoke (name d),
       LogRecord DEBUG (''completed action '' @ name d @ '' ('' @ action_repr d @ '')''
                        @ error_suffix (fst (invoke d h)))],
      snd (invoke d h))
    \<and> filter is_invoke (fst (on_message prefix registry msg h)) = [Invoke (name d)]"
  using assms
  by (simp add: on_message_def topic_suffix_concat received_def is_invoke_def
           split: prod.splits)

theorem on_message_invokes_registered_action_witness:
  "resolve [(''poweroff'', action_mock)] ''poweroff'' = Some action_mock
   \<and> \<not> retained (poweroff_message [] False)
   \<and> topic (poweroff_message [] False) = ''system/command'' @ ''/'' @ ''poweroff''
   \<and> on_message ''system/command'' [(''poweroff'', action_mock)] (poweroff_message [] False) 0 =
       ([LogRecord DEBUG
           (''received topic=system/command/poweroff payload=b'' @ [CHR 0x27, CHR 0x27]),
         LogRecord DEBUG ''executing action poweroff (<MagicMock>)'',
         Invoke ''poweroff'',
         LogRecord DEBUG ''completed action poweroff (<MagicMock>)''], 1)"
proof -
  have h1: "resolve [(''poweroff'', action_mock)] ''poweroff'' = Some action_mock"
    by (simp add: resolve_def)
  have h2: "\<not> retained (poweroff_message [] False)"
    by (simp add: poweroff_message_def)
  have h3: "topic (poweroff_message [] False) = ''system/command'' @ ''/'' @ ''poweroff''"
    by (simp add: poweroff_message_def)
  from on_message_invokes_registered_action[OF h1 h2 h3, of 0] h1 h2 h3 show ?thesis
    by (simp add: poweroff_message_def action_mock_def error_suffix_def bytes_repr_empty)
qed

subsection \<open>The records of a retained message\<close>

text \<open>
  Claim C8, as stated: the info-level record is the only record of a retained message.
  It is not: for the retained message of the test, on \<open>system/command/poweroff\<close> with an
  empty payload, the callback emits the receipt at debug level before it.
\<close>

theorem retained_sole_output_counterexample:
  "retained (poweroff_message [] True)
   \<and> fst (on_message ''system/command'' [(''poweroff'', action_mock)]
            (poweroff_message [] True) 0)
       = [LogRecord DEBUG
            (''received topic=system/command/poweroff payload=b'' @ [CHR 0x27, CHR 0x27]),
          LogRecord INFO ''ignoring retained message'']
   \<and> fst (on_message ''system/command'' [(''poweroff'', action_mock)]
            (poweroff_message [] True) 0)
       \<noteq> [LogRecord INFO ''ignoring retained message'']"
  by (simp add: on_message_retained received_def poweroff_message_def bytes_repr_empty)

text \<open>
  Claim C8, amended. For every message whose retained flag is set, the callback emits
  exactly two log records and nothing else: the debug-level receipt
  \<open>received topic=<topic> payload=<payload>\<close>, then the info-level record
  \<open>ignoring retained message\<close>.
\<close>

theorem on_message_retained_two_records:
  assumes "retained msg"
  shows "fst (on_message prefix registry msg h) =
     [LogRecord DEBUG
        (''received topic='' @ topic msg @ '' payload='' @ bytes_repr (payload msg)),
      LogRecord INFO ''ignoring retained message'']"
  using assms by (simp add: on_message_retained received_def)

theorem on_message_retained_two_records_witness:
  "retained (poweroff_message ''junk'' True)
   \<and> fst (on_message ''system/command'' [(''poweroff'', action_mock)]
            (poweroff_message ''junk'' True) 0)
       = [LogRecord DEBUG
            (''received topic=system/command/poweroff payload=b'' @ [CHR 0x27] @ ''junk''
             @ [CHR 0x27]),
          LogRecord INFO ''ignoring retained message'']"
proof -
  have h: "retained (poweroff_message ''junk'' True)"
    by (simp add: poweroff_message_def)
  from on_message_retained_two_records
         [OF h, of "''system/command''" "[(''poweroff'', action_mock)]" 0] h
  show ?thesis
    by (simp add: poweroff_message_def bytes_repr_junk)
qed

end
